theory Spec2Isabelle
  imports Main "HOL-Library.Word"
begin

unbundle bit_operations_syntax

section \<open>The I/O port interface of \<open>ioport.h\<close>\<close>

text \<open>
  \<open>IOPort<RegisterType, BitsCount>\<close> holds three pointers to registers (data direction,
  output, input) and a mask for the \<open>BitsCount\<close> lines of the port. The register type is
  an unsigned integral type, modelled as \<open>'a word\<close> for its bit width \<open>'a\<close>. The record
  holds the template parameter \<open>BitsCount\<close>, the member \<open>bitsMask\<close> and the contents of
  the three registers the pointers refer to; the three registers are three distinct
  cells, as three distinct hardware registers are. A method that writes through a
  pointer returns the updated record.
\<close>

record (overloaded) 'a ioport =
  BitsCount :: nat
  bitsMask :: "'a word"
  DDR :: "'a word"
  PORT :: "'a word"
  PIN :: "'a word"

text \<open>
  \<open>std::invalid_argument\<close> and \<open>std::runtime_error\<close>, the two exceptions thrown, and
  \<open>UndefinedBehaviour\<close> for a call that evaluates an expression C++ gives no meaning to;
  the registers returned with \<open>UndefinedBehaviour\<close> say nothing about the registers
  after such a call.
\<close>

datatype error = InvalidArgument | RuntimeError | UndefinedBehaviour

subsection \<open>The type \<open>int\<close>\<close>

text \<open>
  The literal \<open>1\<close> of the source has type \<open>int\<close>, taken here as 32 bits wide in two's
  complement. \<open>1 << n\<close> is an \<open>int\<close>: \<open>2 ^ n\<close> for \<open>n < 31\<close>, the least \<open>int\<close> for
  \<open>n = 31\<close>, and undefined for \<open>n \<ge> 32\<close>. Where the source assigns an \<open>int\<close> to a
  register, or combines the two with \<open>|\<close> or \<open>&\<close>, the \<open>int\<close> is converted to the
  register type: cut to its low bits for a narrower register, sign-extended for a wider
  one (\<open>scast\<close>).
\<close>

type_synonym cint = "32 word"

definition shl_one :: "nat \<Rightarrow> cint option" where
  "shl_one n = (if n < 32 then Some (push_bit n 1) else None)"

text \<open>
  \<open>(1 << BitsCount) - 1\<close>, the initializer of \<open>bitsMask\<close>: the subtraction overflows,
  and is undefined, when \<open>1 << BitsCount\<close> is the least \<open>int\<close>.
\<close>

definition bitsMask_init :: "nat \<Rightarrow> cint option" where
  "bitsMask_init bitsCount =
     (case shl_one bitsCount of
        None \<Rightarrow> None
      | Some x \<Rightarrow> if sint x - 1 < - (2 ^ 31) then None else Some (x - 1))"

text \<open>
  The constructor stores the three pointers, and \<open>bitsMask\<close> gets the value of its
  initializer; the body is empty. \<open>None\<close>: the initializer is undefined, and so is
  what the program does from there.
\<close>

definition IOPort :: "nat \<Rightarrow> 'a::len word \<Rightarrow> 'a word \<Rightarrow> 'a word \<Rightarrow> 'a ioport option" where
  "IOPort bitsCount ddr port pin =
     (case bitsMask_init bitsCount of
        None \<Rightarrow> None
      | Some m \<Rightarrow>
          Some \<lparr>BitsCount = bitsCount, bitsMask = scast m, DDR = ddr, PORT = port, PIN = pin\<rparr>)"

text \<open>
  \<open>IOPort5bits\<close> of \<open>main.cpp\<close> is \<open>IOPort<std::uint8_t, 5>\<close>; a port of this type on the
  given register contents (\<open>IOPort5bits_constructed\<close> below).
\<close>

definition IOPort5bits :: "8 word \<Rightarrow> 8 word \<Rightarrow> 8 word \<Rightarrow> 8 ioport" where
  "IOPort5bits ddr port pin =
     \<lparr>BitsCount = 5, bitsMask = 0x1F, DDR = ddr, PORT = port, PIN = pin\<rparr>"

text \<open>\<open>checkBitNumber\<close> throws \<open>std::invalid_argument\<close> or returns.\<close>

definition checkBitNumber :: "'a ioport \<Rightarrow> nat \<Rightarrow> error + unit" where
  "checkBitNumber p bitNumber =
     (if bitNumber \<ge> BitsCount p then Inl InvalidArgument else Inr ())"

text \<open>
  The pointer argument of \<open>setBit\<close> is \<open>DDR\<close> or \<open>PORT\<close> at every call (\<open>PIN\<close> points
  to \<open>const\<close>).
\<close>

datatype reg = RegDDR | RegPORT

fun deref :: "reg \<Rightarrow> 'a ioport \<Rightarrow> 'a word" where
  "deref RegDDR p = DDR p"
| "deref RegPORT p = PORT p"

fun assign :: "reg \<Rightarrow> 'a word \<Rightarrow> 'a ioport \<Rightarrow> 'a ioport" where
  "assign RegDDR v p = p\<lparr>DDR := v\<rparr>"
| "assign RegPORT v p = p\<lparr>PORT := v\<rparr>"

text \<open>
  A method that can throw returns the exception or \<open>()\<close>, together with the registers
  as the call leaves them. \<open>setBit\<close>: \<open>(*reg) |= (1 << bitNumber)\<close> or
  \<open>(*reg) &= ~(1 << bitNumber)\<close>, with \<open>1 << bitNumber\<close> an \<open>int\<close>.
\<close>

definition setBit :: "reg \<Rightarrow> nat \<Rightarrow> bool \<Rightarrow> 'a::len ioport \<Rightarrow> (error + unit) \<times> 'a ioport" where
  "setBit r bitNumber val p =
     (case checkBitNumber p bitNumber of
        Inl e \<Rightarrow> (Inl e, p)
      | Inr _ \<Rightarrow>
          (case shl_one bitNumber of
             None \<Rightarrow> (Inl UndefinedBehaviour, p)
           | Some x \<Rightarrow>
               if val = True
               then (Inr (), assign r (deref r p OR scast x) p)
               else (Inr (), assign r (deref r p AND scast (NOT x)) p)))"

text \<open>\<open>read()\<close> is \<open>const noexcept\<close>: a value, and no register written.\<close>

definition read :: "'a::len ioport \<Rightarrow> 'a word" where
  "read p = PIN p AND bitsMask p"

text \<open>\<open>read(bitNumber)\<close>: \<open>((*PIN) >> bitNumber) % 2\<close>, converted to \<open>bool\<close>.\<close>

definition read_bit :: "'a::len ioport \<Rightarrow> nat \<Rightarrow> error + bool" where
  "read_bit p bitNumber =
     (case checkBitNumber p bitNumber of
        Inl e \<Rightarrow> Inl e
      | Inr _ \<Rightarrow> Inr (drop_bit bitNumber (PIN p) mod 2 \<noteq> 0))"

text \<open>\<open>write(value)\<close>; \<open>write\<close> and \<open>in\<close> are reserved words here, hence \<open>write_all\<close> and \<open>in_all\<close>.\<close>

definition write_all :: "'a::len ioport \<Rightarrow> 'a word \<Rightarrow> (error + unit) \<times> 'a ioport" where
  "write_all p val =
     (if (DDR p AND bitsMask p) \<noteq> bitsMask p then (Inl RuntimeError, p)
      else let higherBits = PORT p AND NOT (bitsMask p)
           in (Inr (), p\<lparr>PORT := (val AND bitsMask p) OR higherBits\<rparr>))"

text \<open>
  \<open>write(bitNumber, value)\<close>. The condition is \<open>(*DDR) >> bitNumber % 2 == 0\<close>, and
  \<open>%\<close> binds tighter than \<open>>>\<close>, which binds tighter than \<open>==\<close>: the register is
  shifted by \<open>bitNumber % 2\<close> and the result compared with 0.
\<close>

definition write_bit :: "'a::len ioport \<Rightarrow> nat \<Rightarrow> bool \<Rightarrow> (error + unit) \<times> 'a ioport" where
  "write_bit p bitNumber val =
     (if drop_bit (bitNumber mod 2) (DDR p) = 0 then (Inl RuntimeError, p)
      else setBit RegPORT bitNumber val p)"

text \<open>\<open>out()\<close> and \<open>in()\<close> are \<open>noexcept\<close>.\<close>

definition out :: "'a::len ioport \<Rightarrow> 'a ioport" where
  "out p = p\<lparr>DDR := DDR p OR bitsMask p\<rparr>"

definition out_bit :: "'a::len ioport \<Rightarrow> nat \<Rightarrow> (error + unit) \<times> 'a ioport" where
  "out_bit p bitNumber = setBit RegDDR bitNumber True p"

definition in_all :: "'a::len ioport \<Rightarrow> 'a ioport" where
  "in_all p = p\<lparr>DDR := DDR p AND NOT (bitsMask p)\<rparr>"

definition in_bit :: "'a::len ioport \<Rightarrow> nat \<Rightarrow> (error + unit) \<times> 'a ioport" where
  "in_bit p bitNumber = setBit RegDDR bitNumber False p"

text \<open>Two calls in a row: the second runs on the registers the first left, unless it threw.\<close>

definition hiZ :: "'a::len ioport \<Rightarrow> nat \<Rightarrow> (error + unit) \<times> 'a ioport" where
  "hiZ p bitNumber =
     (case setBit RegDDR bitNumber False p of
        (Inl e, p') \<Rightarrow> (Inl e, p')
      | (Inr _, p') \<Rightarrow> setBit RegPORT bitNumber False p')"

definition pullUp :: "'a::len ioport \<Rightarrow> nat \<Rightarrow> (error + unit) \<times> 'a ioport" where
  "pullUp p bitNumber =
     (case setBit RegDDR bitNumber False p of
        (Inl e, p') \<Rightarrow> (Inl e, p')
      | (Inr _, p') \<Rightarrow> setBit RegPORT bitNumber True p')"

text \<open>
  The bits of the three registers at positions \<open>BitsCount\<close> and above, compared between
  the registers before a call (\<open>p\<close>) and after it (\<open>q\<close>).
\<close>

definition higher_bits_kept :: "'a::len ioport \<Rightarrow> 'a ioport \<Rightarrow> bool" where
  "higher_bits_kept p q \<longleftrightarrow>
     drop_bit (BitsCount p) (DDR q) = drop_bit (BitsCount p) (DDR p) \<and>
     drop_bit (BitsCount p) (PORT q) = drop_bit (BitsCount p) (PORT p) \<and>
     drop_bit (BitsCount p) (PIN q) = drop_bit (BitsCount p) (PIN p)"

section \<open>The \<open>int\<close> expressions and the constructor\<close>

text \<open>\<open>1 << n\<close> as a number, and the initializer of \<open>bitsMask\<close>: defined up to 30 lines.\<close>

lemma sint_shl_one: "n < 31 \<Longrightarrow> sint (push_bit n 1 :: cint) = 2 ^ n"
proof -
  assume n: "n < 31"
  have "(2::int) ^ n < 2 ^ 31"
    by (rule power_strict_increasing) (use n in simp_all)
  moreover have "- (2 ^ 31) \<le> (2::int) ^ n"
    by (rule order_trans [of _ 0]) simp_all
  ultimately have "signed_take_bit 31 ((2::int) ^ n) = 2 ^ n"
    by (simp add: signed_take_bit_int_eq_self)
  moreover have "(push_bit n 1 :: cint) = word_of_int (2 ^ n)"
    by simp
  ultimately show ?thesis
    by (simp only: sint_sbintrunc') simp
qed

lemma bitsMask_init_Some: "W < 31 \<Longrightarrow> bitsMask_init W = Some (mask W)"
proof -
  assume W: "W < 31"
  have "(0::int) < 2 ^ W" and "(0::int) < 2 ^ 31" by simp_all
  then have "\<not> (2::int) ^ W - 1 < - (2 ^ 31)" by linarith
  then have "\<not> sint (push_bit W 1 :: cint) - 1 < - (2 ^ 31)"
    unfolding sint_shl_one [OF W] .
  moreover have "(push_bit W 1 :: cint) - 1 = mask W"
    by (simp add: mask_eq_exp_minus_1)
  ultimately show ?thesis
    using W by (simp only: bitsMask_init_def shl_one_def) simp
qed

lemma bitsMask_init_None: "31 \<le> W \<Longrightarrow> bitsMask_init W = None"
  by (cases "W = 31") (simp_all add: bitsMask_init_def shl_one_def)

lemma bitsMask_init_iff: "bitsMask_init W = Some m \<longleftrightarrow> W < 31 \<and> m = mask W"
  by (cases "W < 31") (auto simp add: bitsMask_init_Some bitsMask_init_None)

text \<open>The conversion of these \<open>int\<close> values to a register of any width.\<close>

lemma scast_shl: "n < 31 \<Longrightarrow> (scast (push_bit n 1 :: cint) :: 'a::len word) = push_bit n 1"
  by (rule bit_word_eqI) (auto simp add: bit_word_scast_iff bit_push_bit_iff bit_1_iff simp del: push_bit_of_1)

lemma scast_not_shl:
  "n < 31 \<Longrightarrow> (scast (NOT (push_bit n 1 :: cint)) :: 'a::len word) = NOT (push_bit n 1)"
  by (rule bit_word_eqI)
    (auto simp add: bit_word_scast_iff bit_push_bit_iff bit_not_iff bit_1_iff simp del: push_bit_of_1)

lemma scast_mask: "n < 32 \<Longrightarrow> (scast (mask n :: cint) :: 'a::len word) = mask n"
  by (rule bit_word_eqI) (auto simp add: bit_word_scast_iff bit_mask_iff)

text \<open>The constructor makes a port exactly for \<open>BitsCount < 31\<close>, with mask \<open>2 ^ BitsCount - 1\<close>.\<close>

lemma IOPort_Some:
  "W < 31 \<Longrightarrow> IOPort W d q i = Some \<lparr>BitsCount = W, bitsMask = mask W, DDR = d, PORT = q, PIN = i\<rparr>"
  by (simp add: IOPort_def bitsMask_init_Some scast_mask)

lemma IOPort_None: "31 \<le> W \<Longrightarrow> IOPort W d q i = None"
  by (simp add: IOPort_def bitsMask_init_None)

lemma IOPort_eq_Some_iff:
  "IOPort W d q i = Some p \<longleftrightarrow>
     W < 31 \<and> p = \<lparr>BitsCount = W, bitsMask = mask W, DDR = d, PORT = q, PIN = i\<rparr>"
  by (cases "W < 31") (auto simp add: IOPort_Some IOPort_None)

lemma IOPort5bits_constructed: "IOPort 5 d q i = Some (IOPort5bits d q i)"
  by (simp add: IOPort_Some IOPort5bits_def mask_numeral)

section \<open>Bits of words\<close>

lemma shr_mod2: "(drop_bit n (w :: 'a::len word) mod 2 \<noteq> 0) = bit w n"
  by (simp add: bit_iff_odd_drop_bit odd_iff_mod_2_eq_one)

lemma shr_and1: "(drop_bit n (w :: 'a::len word) AND 1 = 1) = bit w n"
  by (simp add: bit_iff_odd_drop_bit and_one_eq odd_iff_mod_2_eq_one)

text \<open>Two words agree after a right shift by \<open>n\<close> iff they agree on every bit from \<open>n\<close> on.\<close>

lemma drop_bit_eq_iff:
  "drop_bit n (a :: 'a::len word) = drop_bit n b \<longleftrightarrow> (\<forall>k. n \<le> k \<longrightarrow> bit a k = bit b k)"
proof
  assume h: "drop_bit n a = drop_bit n b"
  show "\<forall>k. n \<le> k \<longrightarrow> bit a k = bit b k"
  proof (intro allI impI)
    fix k assume "n \<le> k"
    then have "bit a k = bit (drop_bit n a) (k - n)" by (simp add: bit_drop_bit_eq)
    also have "\<dots> = bit (drop_bit n b) (k - n)" by (simp add: h)
    also have "\<dots> = bit b k" using \<open>n \<le> k\<close> by (simp add: bit_drop_bit_eq)
    finally show "bit a k = bit b k" .
  qed
next
  assume "\<forall>k. n \<le> k \<longrightarrow> bit a k = bit b k"
  then show "drop_bit n a = drop_bit n b"
    by (intro bit_word_eqI) (simp add: bit_drop_bit_eq)
qed

lemma higher_bits_kept_iff:
  "higher_bits_kept p q \<longleftrightarrow>
     (\<forall>k. BitsCount p \<le> k \<longrightarrow>
        bit (DDR q) k = bit (DDR p) k \<and> bit (PORT q) k = bit (PORT p) k \<and>
        bit (PIN q) k = bit (PIN p) k)"
  unfolding higher_bits_kept_def drop_bit_eq_iff by blast

lemma higher_bits_kept_refl: "higher_bits_kept p p"
  by (simp add: higher_bits_kept_iff)

lemma higher_bits_kept_trans:
  "higher_bits_kept p q \<Longrightarrow> BitsCount q = BitsCount p \<Longrightarrow> higher_bits_kept q r \<Longrightarrow>
   higher_bits_kept p r"
  by (simp add: higher_bits_kept_iff)

section \<open>\<open>setBit\<close>\<close>

text \<open>Below bit 31, \<open>setBit\<close> sets or clears the one bit; from \<open>BitsCount\<close> on it throws.\<close>

lemma setBit_ok:
  "bitNumber < BitsCount p \<Longrightarrow> bitNumber < 31 \<Longrightarrow>
   setBit r bitNumber val p =
     (Inr (), assign r (if val then set_bit bitNumber (deref r p)
                        else unset_bit bitNumber (deref r p)) p)"
  by (simp add: setBit_def checkBitNumber_def shl_one_def scast_shl scast_not_shl
      set_bit_eq_or unset_bit_eq_and_not del: push_bit_of_1)

lemma setBit_fail:
  "BitsCount p \<le> bitNumber \<Longrightarrow> setBit r bitNumber val p = (Inl InvalidArgument, p)"
  by (simp add: setBit_def checkBitNumber_def)

lemma setBit_BitsCount: "BitsCount (snd (setBit r i v p)) = BitsCount p"
  by (cases r) (simp_all add: setBit_def checkBitNumber_def split: option.splits)

lemma setBit_higher:
  "BitsCount p < 31 \<Longrightarrow> higher_bits_kept p (snd (setBit r i v p))"
proof (cases "i < BitsCount p")
  case True
  moreover assume "BitsCount p < 31"
  ultimately have "i < 31" by simp
  with True show ?thesis
    by (cases r)
      (simp_all add: setBit_ok higher_bits_kept_iff bit_set_bit_iff bit_unset_bit_iff)
next
  case False
  then show ?thesis by (simp add: setBit_fail higher_bits_kept_refl)
qed

section \<open>Writing a single bit\<close>

text \<open>
  C1: for a bit index below \<open>BitsCount\<close>, \<open>write(bitNumber, value)\<close> should throw
  \<open>std::runtime_error\<close> exactly when bit \<open>bitNumber\<close> of the direction register is 0.
  The source shifts the direction register by \<open>bitNumber % 2\<close> and compares the result
  with 0. With an 8-bit register, five lines, direction \<open>0x01\<close> and output \<open>0x00\<close>, line 2
  is an input, and \<open>write(2, true)\<close> does not throw: it sets bit 2 of the output register.
\<close>

theorem write_bit_checks_other_bits:
  "IOPort 5 (0x01 :: 8 word) 0x00 0x00 = Some (IOPort5bits 0x01 0x00 0x00) \<and>
   2 < BitsCount (IOPort5bits 0x01 0x00 0x00) \<and>
   \<not> bit (DDR (IOPort5bits 0x01 0x00 0x00)) 2 \<and>
   write_bit (IOPort5bits 0x01 0x00 0x00) 2 True = (Inr (), IOPort5bits 0x01 0x04 0x00)"
  by (simp add: IOPort5bits_constructed)
    (simp add: write_bit_def IOPort5bits_def setBit_def checkBitNumber_def shl_one_def)

text \<open>What \<open>write(bitNumber, value)\<close> tests, and what it does for a line that is an output.\<close>

lemma write_bit_throws_iff:
  "fst (write_bit p i v) = Inl RuntimeError \<longleftrightarrow> drop_bit (i mod 2) (DDR p) = 0"
  by (simp add: write_bit_def setBit_def checkBitNumber_def split: option.splits)

lemma write_bit_output_line:
  assumes "i < BitsCount p" and "i < 31" and "bit (DDR p) i"
  shows "write_bit p i v
    = (Inr (), p\<lparr>PORT := (if v then set_bit i (PORT p) else unset_bit i (PORT p))\<rparr>)"
proof -
  have "bit (drop_bit (i mod 2) (DDR p)) (i - i mod 2)"
    using assms(3) by (simp add: bit_drop_bit_eq)
  then have "drop_bit (i mod 2) (DDR p) \<noteq> 0"
    by auto
  then show ?thesis
    using assms(1,2) by (simp add: write_bit_def setBit_ok)
qed

section \<open>Bit indices outside the port\<close>

text \<open>
  \<open>write(bitNumber, value)\<close> tests the direction register before \<open>setBit\<close> tests the
  bit index. With five lines and direction \<open>0x00\<close>, \<open>write(6, true)\<close> throws
  \<open>std::runtime_error\<close>, not \<open>std::invalid_argument\<close>.
\<close>

theorem write_bit_large_index_RuntimeError:
  "BitsCount (IOPort5bits 0x00 0x00 0x10) \<le> 6 \<and>
   write_bit (IOPort5bits 0x00 0x00 0x10) 6 True
     = (Inl RuntimeError, IOPort5bits 0x00 0x00 0x10) \<and>
   fst (write_bit (IOPort5bits 0x00 0x00 0x10) 6 True) \<noteq> Inl InvalidArgument"
  by (simp add: write_bit_def IOPort5bits_def)

text \<open>
  C2 (as amended): for every bit index \<open>i \<ge> BitsCount\<close> and all register contents,
  \<open>read(i)\<close>, \<open>out(i)\<close>, \<open>in(i)\<close>, \<open>hiZ(i)\<close> and \<open>pullUp(i)\<close> throw
  \<open>std::invalid_argument\<close>. \<open>write(i, v)\<close> throws too: \<open>std::runtime_error\<close> when its
  direction test, which comes first, rejects the call, and \<open>std::invalid_argument\<close>
  when the test lets the call through to \<open>setBit\<close>. The test rejects the call when the
  direction register is 0, and lets it through when bit \<open>i\<close> of the direction register
  is 1. None of these calls changes a register.
\<close>

theorem large_index_rejected:
  "BitsCount p \<le> i \<Longrightarrow>
     read_bit p i = Inl InvalidArgument \<and>
     out_bit p i = (Inl InvalidArgument, p) \<and>
     in_bit p i = (Inl InvalidArgument, p) \<and>
     hiZ p i = (Inl InvalidArgument, p) \<and>
     pullUp p i = (Inl InvalidArgument, p) \<and>
     write_bit p i v =
       (if drop_bit (i mod 2) (DDR p) = 0 then (Inl RuntimeError, p)
        else (Inl InvalidArgument, p)) \<and>
     (DDR p = 0 \<longrightarrow> write_bit p i v = (Inl RuntimeError, p)) \<and>
     (bit (DDR p) i \<longrightarrow> write_bit p i v = (Inl InvalidArgument, p))"
proof -
  assume i: "BitsCount p \<le> i"
  have nz: "drop_bit (i mod 2) (DDR p) \<noteq> 0" if "bit (DDR p) i"
  proof -
    have "bit (drop_bit (i mod 2) (DDR p)) (i - i mod 2)"
      using that by (simp add: bit_drop_bit_eq)
    then show ?thesis by auto
  qed
  show ?thesis
    using i nz
    by (simp add: read_bit_def checkBitNumber_def out_bit_def in_bit_def hiZ_def pullUp_def
        write_bit_def setBit_fail)
qed

text \<open>
  Five lines, index 6. With direction \<open>0x1F\<close> every call throws \<open>std::invalid_argument\<close>,
  \<open>write\<close> too; with direction \<open>0x00\<close>, \<open>write\<close> throws \<open>std::runtime_error\<close>.
\<close>

theorem large_index_rejected_witness:
  "BitsCount (IOPort5bits 0x1F 0 16) \<le> 6 \<and>
   read_bit (IOPort5bits 0x1F 0 16) 6 = Inl InvalidArgument \<and>
   pullUp (IOPort5bits 0x1F 0 16) 6 = (Inl InvalidArgument, IOPort5bits 0x1F 0 16) \<and>
   write_bit (IOPort5bits 0x1F 0 16) 6 True = (Inl InvalidArgument, IOPort5bits 0x1F 0 16) \<and>
   write_bit (IOPort5bits 0 0 16) 6 True = (Inl RuntimeError, IOPort5bits 0 0 16)"
proof -
  have a: "BitsCount (IOPort5bits 0x1F 0 16) \<le> 6"
    and b: "BitsCount (IOPort5bits 0 0 16) \<le> 6"
    and c: "DDR (IOPort5bits 0 0 16) = 0"
    and d: "drop_bit (6 mod 2) (DDR (IOPort5bits 0x1F 0 16)) \<noteq> 0"
    by (simp_all add: IOPort5bits_def)
  from a c d large_index_rejected [OF a, of True] large_index_rejected [OF b, of True]
  show ?thesis by simp
qed

section \<open>Writing the whole port\<close>

text \<open>
  On a port that the constructor has made, of \<open>W\<close> lines on the registers \<open>ddr\<close>,
  \<open>port\<close> and \<open>pin\<close> (so \<open>W \<le> 30\<close>): \<open>write(value)\<close> throws \<open>std::runtime_error\<close> and
  leaves the registers as they were exactly when \<open>ddr & mask \<noteq> mask\<close>, where
  \<open>mask = 2 ^ W - 1\<close>; otherwise it stores \<open>(value & mask) | (port & ~mask)\<close> in the output
  register. In both cases every bit of the output register from \<open>W\<close> on keeps its value.
\<close>

lemma write_all_higher:
  "bitsMask p = mask (BitsCount p) \<Longrightarrow> higher_bits_kept p (snd (write_all p v))"
  by (auto simp add: write_all_def Let_def higher_bits_kept_iff
      bit_or_iff bit_and_iff bit_not_iff bit_mask_iff dest: bit_imp_le_length)

lemma write_all_constructed:
  assumes "IOPort W ddr port pin = Some p"
  shows "write_all p v =
     (if ddr AND (2 ^ W - 1) \<noteq> 2 ^ W - 1 then (Inl RuntimeError, p)
      else (Inr (), p\<lparr>PORT := (v AND (2 ^ W - 1)) OR (port AND NOT (2 ^ W - 1))\<rparr>))
   \<and> (\<forall>n. W \<le> n \<longrightarrow> bit (PORT (snd (write_all p v))) n = bit port n)"
proof -
  from assms have W: "W < 31"
    and p: "p = \<lparr>BitsCount = W, bitsMask = mask W, DDR = ddr, PORT = port, PIN = pin\<rparr>"
    by (simp_all add: IOPort_eq_Some_iff)
  have 1: "write_all p v =
     (if ddr AND (2 ^ W - 1) \<noteq> 2 ^ W - 1 then (Inl RuntimeError, p)
      else (Inr (), p\<lparr>PORT := (v AND (2 ^ W - 1)) OR (port AND NOT (2 ^ W - 1))\<rparr>))"
    by (simp add: write_all_def p mask_eq_exp_minus_1 Let_def)
  have 2: "\<forall>n. W \<le> n \<longrightarrow> bit (PORT (snd (write_all p v))) n = bit port n"
    using write_all_higher [of p v] by (simp add: higher_bits_kept_iff p)
  from 1 2 show ?thesis by blast
qed

text \<open>
  C3: \<open>write(value)\<close> should keep the bits of the output register from \<open>BitsCount\<close> on,
  for every port. For \<open>IOPort<std::uint64_t, 40>\<close> the initializer of \<open>bitsMask\<close> is
  \<open>(1 << 40) - 1\<close> on \<open>int\<close>, which is undefined, so the mask need not be \<open>2 ^ 40 - 1\<close>.
  With a mask of all ones, for one, and all lines outputs, \<open>write\<close> of all ones to an
  output register of 0 sets bits 40 to 63 as well.
\<close>

theorem write_all_mask_undefined:
  "IOPort 40 (0xFFFFFFFFFFFFFFFF :: 64 word) 0 0 = None \<and>
   write_all
     \<lparr>BitsCount = 40, bitsMask = 0xFFFFFFFFFFFFFFFF, DDR = 0xFFFFFFFFFFFFFFFF,
      PORT = 0, PIN = 0 :: 64 word\<rparr> 0xFFFFFFFFFFFFFFFF
     = (Inr (), \<lparr>BitsCount = 40, bitsMask = 0xFFFFFFFFFFFFFFFF, DDR = 0xFFFFFFFFFFFFFFFF,
                  PORT = 0xFFFFFFFFFFFFFFFF, PIN = 0\<rparr>) \<and>
   bit (0xFFFFFFFFFFFFFFFF :: 64 word) 40 \<and> \<not> bit (0 :: 64 word) 40"
  by (simp add: IOPort_None write_all_def)

section \<open>The bits outside the port\<close>

text \<open>
  On a port that the constructor has made (so of at most 30 lines), every method that
  writes a register leaves the bits of the three registers from \<open>BitsCount\<close> on as they
  were, whether it returns or throws. (\<open>read()\<close> and \<open>read(bitNumber)\<close> are \<open>const\<close> and
  return no registers.)
\<close>

lemma higher_bits_kept_constructed:
  assumes "IOPort W ddr port pin = Some p"
  shows "higher_bits_kept p (snd (write_all p v)) \<and>
   higher_bits_kept p (snd (write_bit p i b)) \<and>
   higher_bits_kept p (out p) \<and>
   higher_bits_kept p (snd (out_bit p i)) \<and>
   higher_bits_kept p (in_all p) \<and>
   higher_bits_kept p (snd (in_bit p i)) \<and>
   higher_bits_kept p (snd (hiZ p i)) \<and>
   higher_bits_kept p (snd (pullUp p i))"
proof -
  from assms have W: "BitsCount p < 31" and m: "bitsMask p = mask (BitsCount p)"
    by (auto simp add: IOPort_eq_Some_iff)
  have 1: "higher_bits_kept p (snd (write_all p v))"
    by (rule write_all_higher [OF m])
  have 2: "higher_bits_kept p (snd (write_bit p i b))"
    by (simp add: write_bit_def setBit_higher [OF W] higher_bits_kept_refl)
  have 3: "higher_bits_kept p (out p)"
    by (simp add: out_def m higher_bits_kept_iff bit_or_iff bit_mask_iff)
  have 4: "higher_bits_kept p (snd (out_bit p i))"
    by (simp add: out_bit_def setBit_higher [OF W])
  have 5: "higher_bits_kept p (in_all p)"
    by (auto simp add: in_all_def m higher_bits_kept_iff bit_and_iff bit_not_iff
        bit_mask_iff dest: bit_imp_le_length)
  have 6: "higher_bits_kept p (snd (in_bit p i))"
    by (simp add: in_bit_def setBit_higher [OF W])
  have two: "higher_bits_kept p
      (snd (case setBit r1 i v1 p of
              (Inl e, p') \<Rightarrow> (Inl e, p')
            | (Inr _, p') \<Rightarrow> setBit r2 i v2 p'))" for r1 r2 v1 v2
  proof (cases "setBit r1 i v1 p")
    case (Pair res p')
    have a: "higher_bits_kept p p'"
      using setBit_higher [OF W, of r1 i v1] Pair by simp
    have b: "BitsCount p' = BitsCount p"
      using setBit_BitsCount [of r1 i v1 p] Pair by simp
    have c: "higher_bits_kept p' (snd (setBit r2 i v2 p'))"
      by (rule setBit_higher) (simp add: b W)
    show ?thesis
      using Pair a higher_bits_kept_trans [OF a b c] by (cases res) simp_all
  qed
  have 7: "higher_bits_kept p (snd (hiZ p i))"
    unfolding hiZ_def by (rule two)
  have 8: "higher_bits_kept p (snd (pullUp p i))"
    unfolding pullUp_def by (rule two)
  from 1 2 3 4 5 6 7 8 show ?thesis by blast
qed

text \<open>
  C4: the bits of the registers from \<open>BitsCount\<close> on should stay as they are under every
  method, for every port. For \<open>IOPort<std::uint64_t, 32>\<close> the initializer of \<open>bitsMask\<close>
  is undefined; and whatever the mask (\<open>0xFFFFFFFF\<close>, say), \<open>out(31)\<close> computes \<open>1 << 31\<close>
  on \<open>int\<close>, the least \<open>int\<close>, whose conversion to the 64-bit register has bits 31 to 63
  set: on a direction register of 0 the call sets bits 32 to 63 too.
\<close>

theorem out_bit_31_changes_higher_bits:
  "IOPort 32 (0 :: 64 word) 0 0 = None \<and>
   out_bit \<lparr>BitsCount = 32, bitsMask = 0xFFFFFFFF, DDR = 0, PORT = 0, PIN = 0 :: 64 word\<rparr> 31
     = (Inr (), \<lparr>BitsCount = 32, bitsMask = 0xFFFFFFFF, DDR = 0xFFFFFFFF80000000,
                  PORT = 0, PIN = 0\<rparr>) \<and>
   \<not> higher_bits_kept
       \<lparr>BitsCount = 32, bitsMask = 0xFFFFFFFF, DDR = 0, PORT = 0, PIN = 0 :: 64 word\<rparr>
       (snd (out_bit
          \<lparr>BitsCount = 32, bitsMask = 0xFFFFFFFF, DDR = 0, PORT = 0, PIN = 0 :: 64 word\<rparr> 31))"
  by (simp add: IOPort_None out_bit_def setBit_def checkBitNumber_def shl_one_def
      higher_bits_kept_def drop_bit_eq_div)

section \<open>Reading\<close>

text \<open>
  On a port that the constructor has made, of \<open>W\<close> lines (so \<open>W \<le> 30\<close>), \<open>read()\<close>
  returns the input register masked with \<open>2 ^ W - 1\<close>, as a word and as a number.
\<close>

lemma read_constructed:
  assumes "IOPort W ddr port pin = Some p"
  shows "read p = pin AND (2 ^ W - 1) \<and> uint (read p) = uint pin AND (2 ^ W - 1)"
proof -
  from assms
  have p: "p = \<lparr>BitsCount = W, bitsMask = mask W, DDR = ddr, PORT = port, PIN = pin\<rparr>"
    by (simp add: IOPort_eq_Some_iff)
  have 1: "read p = pin AND (2 ^ W - 1)"
    by (simp add: read_def p mask_eq_exp_minus_1)
  have "uint (read p) = uint pin AND uint (mask W :: 'a word)"
    by (simp add: read_def p uint_and)
  also have "\<dots> = uint pin AND mask W"
    by (rule bit_eqI) (auto simp add: bit_and_iff bit_uint_iff bit_mask_iff)
  finally have 2: "uint (read p) = uint pin AND (2 ^ W - 1)"
    by (simp add: mask_eq_exp_minus_1)
  from 1 2 show ?thesis by blast
qed

text \<open>
  C5: \<open>read()\<close> should return the input register masked with \<open>2 ^ BitsCount - 1\<close> for
  every \<open>BitsCount\<close> from 1 to the width of the register. For
  \<open>IOPort<std::uint64_t, 40>\<close> the initializer of \<open>bitsMask\<close> is \<open>(1 << 40) - 1\<close> on
  \<open>int\<close>, which is undefined, so the mask need not be \<open>2 ^ 40 - 1\<close>. With a mask of all
  ones, for one, \<open>read()\<close> of an input register of all ones returns bits 40 to 63 too.
\<close>

theorem read_mask_undefined:
  "IOPort 40 0 0 (0xFFFFFFFFFFFFFFFF :: 64 word) = None \<and>
   read \<lparr>BitsCount = 40, bitsMask = 0xFFFFFFFFFFFFFFFF, DDR = 0, PORT = 0,
         PIN = 0xFFFFFFFFFFFFFFFF :: 64 word\<rparr> = 0xFFFFFFFFFFFFFFFF \<and>
   (0xFFFFFFFFFFFFFFFF :: 64 word) \<noteq> 0xFFFFFFFFFFFFFFFF AND (2 ^ 40 - 1)"
  by (simp add: IOPort_None read_def)

text \<open>
  C6: for every bit index \<open>i < BitsCount\<close> and all register contents, \<open>read(i)\<close> returns
  \<open>(input >> i) & 1\<close>, that is bit \<open>i\<close> of the input register. It returns no registers.
\<close>

theorem read_bit_spec:
  "i < BitsCount p \<Longrightarrow>
     read_bit p i = Inr (drop_bit i (PIN p) AND 1 = 1) \<and> read_bit p i = Inr (bit (PIN p) i)"
  unfolding read_bit_def checkBitNumber_def shr_mod2 shr_and1 by simp

text \<open>Five lines, input 16: line 4 is high, line 3 is low.\<close>

theorem read_bit_spec_witness:
  "read_bit (IOPort5bits 0 0 16) 4 = Inr True \<and> read_bit (IOPort5bits 0 0 16) 3 = Inr False"
proof -
  have a: "4 < BitsCount (IOPort5bits 0 0 16)"
    and b: "3 < BitsCount (IOPort5bits 0 0 16)"
    by (simp_all add: IOPort5bits_def)
  have c: "PIN (IOPort5bits 0 0 16) = 16"
    by (simp add: IOPort5bits_def)
  have d: "(drop_bit 4 (16 :: 8 word) AND 1 = 1) = True"
    "(drop_bit 3 (16 :: 8 word) AND 1 = 1) = False"
    by (simp_all add: drop_bit_eq_div)
  from read_bit_spec [OF a, THEN conjunct1] read_bit_spec [OF b, THEN conjunct1]
  show ?thesis unfolding c d by simp
qed

section \<open>High impedance and pull-up\<close>

text \<open>
  On a port that the constructor has made, of \<open>W\<close> lines (so \<open>W \<le> 30\<close>), and for a bit
  index \<open>i < W\<close> that is a bit of the register: \<open>pullUp(i)\<close> clears bit \<open>i\<close> of the
  direction register and sets bit \<open>i\<close> of the output register, and \<open>hiZ(i)\<close> clears bit
  \<open>i\<close> of both; every other bit of the two registers and the input register are as
  before.
\<close>

lemma pullUp_hiZ_constructed:
  assumes "IOPort W ddr port pin = Some p" and "i < W" and "i < LENGTH('a)"
  shows "pullUp p i = (Inr (), p\<lparr>DDR := unset_bit i ddr, PORT := set_bit i port\<rparr>) \<and>
     hiZ p i = (Inr (), p\<lparr>DDR := unset_bit i ddr, PORT := unset_bit i port\<rparr>) \<and>
     \<not> bit (DDR (snd (pullUp p i))) i \<and> bit (PORT (snd (pullUp p i))) i \<and>
     \<not> bit (DDR (snd (hiZ p i))) i \<and> \<not> bit (PORT (snd (hiZ p i))) i \<and>
     (\<forall>n. n \<noteq> i \<longrightarrow>
        bit (DDR (snd (pullUp p i))) n = bit ddr n \<and>
        bit (PORT (snd (pullUp p i))) n = bit port n \<and>
        bit (DDR (snd (hiZ p i))) n = bit ddr n \<and>
        bit (PORT (snd (hiZ p i))) n = bit port n) \<and>
     PIN (snd (pullUp p i)) = pin \<and> PIN (snd (hiZ p i)) = (pin :: 'a::len word)"
proof -
  from assms(1) have W: "W < 31"
    and p: "p = \<lparr>BitsCount = W, bitsMask = mask W, DDR = ddr, PORT = port, PIN = pin\<rparr>"
    by (simp_all add: IOPort_eq_Some_iff)
  from W assms(2) have i: "i < BitsCount p" "i < 31"
    by (simp_all add: p)
  have pu: "pullUp p i = (Inr (), p\<lparr>DDR := unset_bit i ddr, PORT := set_bit i port\<rparr>)"
    using i by (simp add: pullUp_def setBit_ok) (simp add: p)
  have hz: "hiZ p i = (Inr (), p\<lparr>DDR := unset_bit i ddr, PORT := unset_bit i port\<rparr>)"
    using i by (simp add: hiZ_def setBit_ok) (simp add: p)
  show ?thesis
    unfolding pu hz using assms(3) by (simp add: bit_set_bit_iff bit_unset_bit_iff p)
qed

text \<open>
  C7: \<open>pullUp(i)\<close> and \<open>hiZ(i)\<close> should change bit \<open>i\<close> of the direction and output
  registers and no other bit, for every \<open>i < BitsCount\<close>. For
  \<open>IOPort<std::uint64_t, 32>\<close> the initializer of \<open>bitsMask\<close> is undefined; and whatever
  the mask (\<open>0xFFFFFFFF\<close>, say), the calls for line 31 compute \<open>1 << 31\<close> on \<open>int\<close>, the
  least \<open>int\<close>: \<open>~(1 << 31)\<close> converts to \<open>0x7FFFFFFF\<close> and \<open>1 << 31\<close> to
  \<open>0xFFFFFFFF80000000\<close>. On registers of all ones \<open>pullUp(31)\<close> and \<open>hiZ(31)\<close> clear bits
  31 to 63 of the direction register, on an output register of 0 \<open>pullUp(31)\<close> sets bits
  31 to 63, and on one of all ones \<open>hiZ(31)\<close> clears them.
\<close>

theorem pullUp_hiZ_31_change_higher_bits:
  "IOPort 32 (0xFFFFFFFFFFFFFFFF :: 64 word) 0 0 = None \<and>
   pullUp \<lparr>BitsCount = 32, bitsMask = 0xFFFFFFFF, DDR = 0xFFFFFFFFFFFFFFFF,
           PORT = 0, PIN = 0 :: 64 word\<rparr> 31
     = (Inr (), \<lparr>BitsCount = 32, bitsMask = 0xFFFFFFFF, DDR = 0x7FFFFFFF,
                  PORT = 0xFFFFFFFF80000000, PIN = 0\<rparr>) \<and>
   hiZ \<lparr>BitsCount = 32, bitsMask = 0xFFFFFFFF, DDR = 0xFFFFFFFFFFFFFFFF,
        PORT = 0xFFFFFFFFFFFFFFFF, PIN = 0 :: 64 word\<rparr> 31
     = (Inr (), \<lparr>BitsCount = 32, bitsMask = 0xFFFFFFFF, DDR = 0x7FFFFFFF,
                  PORT = 0x7FFFFFFF, PIN = 0\<rparr>)"
  by (simp add: IOPort_None pullUp_def hiZ_def setBit_def checkBitNumber_def shl_one_def)

section \<open>The constructor and the mask\<close>

text \<open>
  Neither the template nor the constructor tests \<open>BitsCount\<close>. For an 8-bit register,
  \<open>IOPort<uint8_t, 9>\<close> is a port with nine lines, whose \<open>read(8)\<close> passes the index test,
  and \<open>IOPort<uint8_t, 0>\<close> is a port with no line and mask 0.
\<close>

theorem IOPort_width_unchecked:
  "IOPort 9 0 0 (16 :: 8 word)
     = Some \<lparr>BitsCount = 9, bitsMask = 0xFF, DDR = 0, PORT = 0, PIN = 16\<rparr> \<and>
   \<not> 9 \<le> LENGTH(8) \<and>
   read_bit \<lparr>BitsCount = 9, bitsMask = 0xFF, DDR = 0, PORT = 0, PIN = 16 :: 8 word\<rparr> 8
     = Inr False \<and>
   IOPort 0 0 0 (16 :: 8 word)
     = Some \<lparr>BitsCount = 0, bitsMask = 0x00, DDR = 0, PORT = 0, PIN = 16\<rparr>"
  by (simp add: IOPort_Some read_bit_def checkBitNumber_def mask_eq_exp_minus_1)

text \<open>
  C8 (as amended): the constructor makes a port for every \<open>BitsCount\<close> from 0 to 30,
  above the width of the register or not, and the port holds the registers it was
  given; its mask is \<open>(1 << BitsCount) - 1\<close> converted to the register type, and for
  \<open>BitsCount\<close> up to the width of the register it is the number \<open>2 ^ BitsCount - 1\<close>.
\<close>

theorem IOPort_bitsMask:
  "W < 31 \<Longrightarrow>
     (\<exists>p. IOPort W ddr port pin = Some p \<and> BitsCount p = W \<and>
          DDR p = ddr \<and> PORT p = port \<and> PIN p = pin \<and>
          bitsMask p = 2 ^ W - 1 \<and>
          (W \<le> LENGTH('a) \<longrightarrow> uint (bitsMask (p :: 'a::len ioport)) = 2 ^ W - 1))"
proof -
  assume W: "W < 31"
  have "uint (mask W :: 'a word) = mask W" if "W \<le> LENGTH('a)"
    using that by (simp add: uint_mask_eq min_def)
  then show ?thesis
    by (simp add: IOPort_Some [OF W] mask_eq_exp_minus_1)
qed

text \<open>The port of \<open>main.cpp\<close>: five lines of an 8-bit register, mask 31.\<close>

theorem IOPort_bitsMask_witness:
  "IOPort 5 0 0 (16 :: 8 word) = Some (IOPort5bits 0 0 16) \<and>
   bitsMask (IOPort5bits 0 0 16) = 31 \<and> uint (bitsMask (IOPort5bits 0 0 16)) = 31"
proof -
  have a: "(5 :: nat) < 31" by simp
  from IOPort_bitsMask [OF a, of 0 0 "16 :: 8 word"]
  show ?thesis by (simp add: IOPort5bits_constructed)
qed

section \<open>Idempotence\<close>

text \<open>
  C9: for all register contents, \<open>out()\<close> twice leaves the registers as \<open>out()\<close> once
  does, and \<open>in()\<close> twice as \<open>in()\<close> once.
\<close>

theorem out_in_all_idempotent: "out (out p) = out p \<and> in_all (in_all p) = in_all p"
  by (simp add: out_def in_all_def and.assoc or.assoc)

text \<open>Five lines, direction \<open>0x81\<close>.\<close>

theorem out_in_all_idempotent_witness:
  "out (out (IOPort5bits 0x81 0 0)) = IOPort5bits 0x9F 0 0 \<and>
   in_all (in_all (IOPort5bits 0x81 0 0)) = IOPort5bits 0x80 0 0"
  using out_in_all_idempotent [of "IOPort5bits 0x81 0 0"]
  by (simp add: IOPort5bits_def out_def in_all_def)

text \<open>
  C10: for every bit index (so for every \<open>i < BitsCount\<close>) and all register contents,
  \<open>pullUp(i)\<close> twice gives the result and the registers of \<open>pullUp(i)\<close> once, and
  \<open>hiZ(i)\<close> twice those of \<open>hiZ(i)\<close> once.
  (For \<open>32 \<le> i < BitsCount\<close> the first call is undefined, and so is the second.)
\<close>

theorem pullUp_hiZ_idempotent:
  "pullUp (snd (pullUp p i)) i = pullUp p i \<and> hiZ (snd (hiZ p i)) i = hiZ p i"
  by (simp add: pullUp_def hiZ_def setBit_def checkBitNumber_def and.assoc or.assoc
      split: option.splits)

text \<open>Five lines, line 0, direction \<open>0x1F\<close>.\<close>

theorem pullUp_hiZ_idempotent_witness:
  "pullUp (snd (pullUp (IOPort5bits 0x1F 0 0) 0)) 0 = (Inr (), IOPort5bits 0x1E 0x01 0) \<and>
   hiZ (snd (hiZ (IOPort5bits 0x1F 0x01 0) 0)) 0 = (Inr (), IOPort5bits 0x1E 0 0)"
  using pullUp_hiZ_idempotent [of "IOPort5bits 0x1F 0 0" 0]
        pullUp_hiZ_idempotent [of "IOPort5bits 0x1F 1 0" 0]
  by (simp add: IOPort5bits_def pullUp_def hiZ_def setBit_def checkBitNumber_def shl_one_def)

end
